theory Spec2Isabelle
  imports Main "HOL-Library.Word"
begin

section \<open>Fault dispute game types (op-challenger/game/fault/types/types.go)\<close>

subsection \<open>Bytes, hashes and big-endian integers\<close>

type_synonym byte = "8 word"

text \<open>\<open>common.Hash\<close> is the array type \<open>[32]byte\<close>: a 256-bit value.\<close>

type_synonym hash = "256 word"

text \<open>
  A Go runtime panic is a value of the model. \<open>SliceBoundsOutOfRange\<close> is the runtime
  error of a slice expression \<open>s[lo:]\<close> with \<open>lo > len(s)\<close>; \<open>FillBytesOverflow\<close> is the
  panic of \<open>(*big.Int).FillBytes\<close> when the value does not fit in the buffer.
  \<open>ErrGameDepthReached\<close> is the error variable of types.go.
\<close>

datatype error = SliceBoundsOutOfRange | FillBytesOverflow | ErrGameDepthReached

text \<open>The \<open>n\<close> low-order base-256 digits of \<open>x\<close>, most significant first.\<close>

fun be_bytes :: "nat \<Rightarrow> nat \<Rightarrow> byte list" where
  "be_bytes 0 x = []"
| "be_bytes (Suc n) x = be_bytes n (x div 256) @ [of_nat (x mod 256)]"

text \<open>\<open>(*big.Int).SetBytes\<close>: the bytes read as a big-endian unsigned integer.\<close>

definition SetBytes :: "byte list \<Rightarrow> nat" where
  "SetBytes bs = foldl (\<lambda>acc b. acc * 256 + unat b) 0 bs"

text \<open>
  \<open>(*big.Int).FillBytes(buf)\<close> on a buffer of \<open>n\<close> bytes: the zero-extended big-endian
  bytes of the value, and a panic when the value does not fit.
\<close>

definition FillBytes :: "nat \<Rightarrow> nat \<Rightarrow> error + byte list" where
  "FillBytes n x = (if x < 256 ^ n then Inr (be_bytes n x) else Inl FillBytesOverflow)"

text \<open>\<open>common.Hash.Bytes\<close>: the 32 bytes of the array, in order.\<close>

definition Hash_Bytes :: "hash \<Rightarrow> byte list" where
  "Hash_Bytes h = be_bytes 32 (unat h)"

text \<open>
  The builtin \<open>copy(dst, src)\<close>: the first \<open>min(len(dst), len(src))\<close> bytes of \<open>dst\<close>
  are overwritten; the function returns the new contents of \<open>dst\<close>.
\<close>

definition copy :: "byte list \<Rightarrow> byte list \<Rightarrow> byte list" where
  "copy dst src = take (min (length dst) (length src)) src
                  @ drop (min (length dst) (length src)) dst"

subsection \<open>Position\<close>

text \<open>
  Modelled from the spec: the type \<open>Position\<close> and its methods live in position.go,
  which is not among the sources. The specification gives a position as the pair
  (depth, indexAtDepth) with the invariant \<open>0 \<le> indexAtDepth < 2^depth\<close>.
\<close>

record Position =
  depth :: nat
  indexAtDepth :: nat

text \<open>Modelled from the spec: the invariant of a position, \<open>0 \<le> indexAtDepth < 2^depth\<close>.\<close>

definition valid_position :: "Position \<Rightarrow> bool" where
  "valid_position p \<longleftrightarrow> indexAtDepth p < 2 ^ depth p"

text \<open>
  Modelled from the spec: \<open>ToGIndex\<close> of position.go, the generalized index
  \<open>G = 2^depth + indexAtDepth\<close>.
\<close>

definition ToGIndex :: "Position \<Rightarrow> nat" where
  "ToGIndex p = 2 ^ depth p + indexAtDepth p"

text \<open>
  Modelled from the spec: \<open>IsRootPosition\<close> of position.go, which holds iff
  depth = 0 and indexAtDepth = 0.
\<close>

definition IsRootPosition :: "Position \<Rightarrow> bool" where
  "IsRootPosition p \<longleftrightarrow> depth p = 0 \<and> indexAtDepth p = 0"

text \<open>
  Modelled from the spec: parent is (depth - 1, indexAtDepth / 2), leftChild is
  (depth + 1, 2 i) and rightChild is (depth + 1, 2 i + 1); position.go is not among the
  sources. The specification says nothing of the parent of the root; subtraction on
  \<open>nat\<close> stops at 0 there.
\<close>

definition parent :: "Position \<Rightarrow> Position" where
  "parent p = \<lparr>depth = depth p - 1, indexAtDepth = indexAtDepth p div 2\<rparr>"

definition leftChild :: "Position \<Rightarrow> Position" where
  "leftChild p = \<lparr>depth = depth p + 1, indexAtDepth = 2 * indexAtDepth p\<rparr>"

definition rightChild :: "Position \<Rightarrow> Position" where
  "rightChild p = \<lparr>depth = depth p + 1, indexAtDepth = 2 * indexAtDepth p + 1\<rparr>"

text \<open>
  Modelled from the spec: the bisection moves, whose code is not among the sources. An
  attack is the left child of the disputed position, a defence the right child (one
  level deeper, at an odd index); at depth = maxDepth no further move is possible and
  the attempt fails with the depth-exhausted error.
\<close>

definition attack :: "nat \<Rightarrow> Position \<Rightarrow> error + Position" where
  "attack maxDepth p =
     (if depth p = maxDepth then Inl ErrGameDepthReached else Inr (leftChild p))"

definition defend :: "nat \<Rightarrow> Position \<Rightarrow> error + Position" where
  "defend maxDepth p =
     (if depth p = maxDepth then Inl ErrGameDepthReached else Inr (rightChild p))"

subsection \<open>Claims\<close>

record ClaimData =
  Value :: hash
  Position :: Position

text \<open>\<open>Claim\<close> embeds \<open>ClaimData\<close>; Go's \<open>int\<close> is 64 bits wide.\<close>

record Claim = ClaimData +
  Countered :: bool
  Clock :: "64 word"
  ContractIndex :: "64 word"
  ParentContractIndex :: "64 word"

text \<open>The composite literal \<open>Claim{}\<close>: every field has its zero value.\<close>

definition zero_Claim :: Claim where
  "zero_Claim = \<lparr>Value = 0, Position = \<lparr>depth = 0, indexAtDepth = 0\<rparr>,
     Countered = False, Clock = 0, ContractIndex = 0, ParentContractIndex = 0\<rparr>"

definition IsRoot :: "Claim \<Rightarrow> bool" where
  "IsRoot c = IsRootPosition (Position c)"

subsection \<open>Local context preimage\<close>

record LocalContextPreimage =
  Pre :: Claim
  Post :: Claim

definition NewLocalContextPreimage :: "Claim \<Rightarrow> Claim \<Rightarrow> LocalContextPreimage" where
  "NewLocalContextPreimage pre post = \<lparr>Pre = pre, Post = post\<rparr>"

definition UsePrestateBlock :: "LocalContextPreimage \<Rightarrow> bool" where
  "UsePrestateBlock l \<longleftrightarrow> Pre l = zero_Claim"

text \<open>
  The closure \<open>encodeClaim\<close> of \<open>Preimage\<close>: a buffer of 64 zero bytes, the value copied
  into \<open>data[0:32]\<close>, the generalized index filled into \<open>data[32:]\<close>.
\<close>

definition encodeClaim :: "Claim \<Rightarrow> error + byte list" where
  "encodeClaim c =
     (let data = replicate 64 (0 :: byte);
          data1 = copy (take 32 data) (Hash_Bytes (Value c)) @ drop 32 data
      in case FillBytes (length (drop 32 data1)) (ToGIndex (Position c)) of
           Inl e \<Rightarrow> Inl e
         | Inr bs \<Rightarrow> Inr (take 32 data1 @ bs))"

definition Preimage :: "LocalContextPreimage \<Rightarrow> error + byte list" where
  "Preimage l =
     (case (if \<not> UsePrestateBlock l then encodeClaim (Pre l) else Inr []) of
        Inl e \<Rightarrow> Inl e
      | Inr data \<Rightarrow>
          (case encodeClaim (Post l) of
             Inl e \<Rightarrow> Inl e
           | Inr post \<Rightarrow> Inr (data @ post)))"

text \<open>
  \<open>Hash\<close> applies \<open>crypto.Keccak256Hash\<close> of go-ethereum to the preimage; the hash
  function is a parameter of the model.
\<close>

definition Hash :: "(byte list \<Rightarrow> hash) \<Rightarrow> LocalContextPreimage \<Rightarrow> error + hash" where
  "Hash keccak256 l =
     (case Preimage l of Inl e \<Rightarrow> Inl e | Inr bs \<Rightarrow> Inr (keccak256 bs))"

subsection \<open>Preimage oracle data\<close>

record PreimageOracleData =
  IsLocal :: bool
  LocalContext :: hash
  OracleKey :: "byte list"
  OracleData :: "byte list"
  OracleOffset :: "32 word"

text \<open>The slice expression \<open>s[lo:]\<close>, which panics when \<open>lo > len(s)\<close>.\<close>

definition slice_from :: "nat \<Rightarrow> byte list \<Rightarrow> error + byte list" where
  "slice_from lo s = (if lo \<le> length s then Inr (drop lo s) else Inl SliceBoundsOutOfRange)"

definition GetLocalContextBigInt :: "PreimageOracleData \<Rightarrow> nat" where
  "GetLocalContextBigInt p = SetBytes (Hash_Bytes (LocalContext p))"

definition GetOracleOffsetBigInt :: "PreimageOracleData \<Rightarrow> nat" where
  "GetOracleOffsetBigInt p = unat (OracleOffset p)"

definition GetIdent :: "PreimageOracleData \<Rightarrow> error + nat" where
  "GetIdent p =
     (case slice_from 1 (OracleKey p) of Inl e \<Rightarrow> Inl e | Inr bs \<Rightarrow> Inr (SetBytes bs))"

definition GetPreimageWithoutSize :: "PreimageOracleData \<Rightarrow> error + byte list" where
  "GetPreimageWithoutSize p = slice_from 8 (OracleData p)"

definition NewPreimageOracleData ::
  "hash \<Rightarrow> byte list \<Rightarrow> byte list \<Rightarrow> 32 word \<Rightarrow> PreimageOracleData" where
  "NewPreimageOracleData lctx key data offset =
     \<lparr>IsLocal = (length key > 0 \<and> key ! 0 = 1),
      LocalContext = lctx,
      OracleKey = key,
      OracleData = data,
      OracleOffset = offset\<rparr>"

subsection \<open>The specification's encoding, and sample values\<close>

text \<open>
  The encoding of a claim in the specification's words: the 32-byte big-endian value
  followed by the 32-byte big-endian generalized index of the claim's position. It is
  compared below with \<open>encodeClaim\<close>, which follows the code.
\<close>

definition spec_encode :: "Claim \<Rightarrow> byte list" where
  "spec_encode c = be_bytes 32 (unat (Value c)) @ be_bytes 32 (ToGIndex (Position c))"

text \<open>Concrete values at which the theorems below are instantiated.\<close>

definition sample_oracle_data :: "byte list \<Rightarrow> byte list \<Rightarrow> PreimageOracleData" where
  "sample_oracle_data key data =
     \<lparr>IsLocal = True, LocalContext = 0, OracleKey = key, OracleData = data, OracleOffset = 0\<rparr>"

definition sample_claim :: "nat \<Rightarrow> nat \<Rightarrow> Claim" where
  "sample_claim d i = \<lparr>Value = 7, Position = \<lparr>depth = d, indexAtDepth = i\<rparr>,
     Countered = False, Clock = 0, ContractIndex = 0, ParentContractIndex = 0\<rparr>"

definition sample_keccak :: "byte list \<Rightarrow> hash" where
  "sample_keccak bs = of_nat (SetBytes bs) + of_nat (length bs)"

section \<open>Properties\<close>

subsection \<open>Big-endian bytes\<close>

lemma length_be_bytes: "length (be_bytes n x) = n"
  by (induction n arbitrary: x) auto

lemma SetBytes_snoc: "SetBytes (xs @ [b]) = SetBytes xs * 256 + unat b"
  by (simp add: SetBytes_def)

text \<open>Reading back what \<open>be_bytes\<close> wrote gives the number: the encoding is big-endian.\<close>

lemma SetBytes_be_bytes: "x < 256 ^ n \<Longrightarrow> SetBytes (be_bytes n x) = x"
proof (induction n arbitrary: x)
  case 0
  then show ?case by (simp add: SetBytes_def)
next
  case (Suc n)
  then have "x div 256 < 256 ^ n"
    by (simp add: less_mult_imp_div_less mult.commute)
  then have "SetBytes (be_bytes n (x div 256)) = x div 256"
    by (rule Suc.IH)
  moreover have "unat (of_nat (x mod 256) :: byte) = x mod 256"
    by (simp add: unat_of_nat)
  ultimately show ?case by (simp add: SetBytes_snoc)
qed

lemma length_Hash_Bytes: "length (Hash_Bytes h) = 32"
  by (simp add: Hash_Bytes_def length_be_bytes)

lemma length_spec_encode: "length (spec_encode c) = 64"
  by (simp add: spec_encode_def length_be_bytes)

subsection \<open>Encoding one claim\<close>

lemma encodeClaim_fits:
  "ToGIndex (Position c) < 2 ^ 256 \<Longrightarrow> encodeClaim c = Inr (spec_encode c)"
  by (simp add: encodeClaim_def Let_def copy_def length_Hash_Bytes FillBytes_def
      spec_encode_def Hash_Bytes_def length_be_bytes)

lemma encodeClaim_overflow:
  "\<not> ToGIndex (Position c) < 2 ^ 256 \<Longrightarrow> encodeClaim c = Inl FillBytesOverflow"
  by (simp add: encodeClaim_def Let_def copy_def length_Hash_Bytes FillBytes_def)

subsection \<open>Accessors of preimage oracle data\<close>

text \<open>
  Claim C1. \<open>GetIdent\<close> on a \<open>PreimageOracleData\<close> whose \<open>OracleKey\<close> is empty fails
  explicitly (the slice expression \<open>OracleKey[1:]\<close> panics; no default identifier is
  returned); for every non-empty \<open>OracleKey\<close> it succeeds, and the identifier is the
  key without its first byte, read as a big-endian integer.
\<close>

theorem GetIdent_empty_fails_nonempty_succeeds:
  "(OracleKey p = [] \<longrightarrow> GetIdent p = Inl SliceBoundsOutOfRange) \<and>
   (OracleKey p \<noteq> [] \<longrightarrow> GetIdent p = Inr (SetBytes (tl (OracleKey p))))"
  by (cases "OracleKey p") (simp_all add: GetIdent_def slice_from_def drop_Suc)

theorem GetIdent_empty_fails_nonempty_succeeds_witness:
  "GetIdent (sample_oracle_data [] []) = Inl SliceBoundsOutOfRange \<and>
   GetIdent (sample_oracle_data [1, 5] []) = Inr 5"
  using GetIdent_empty_fails_nonempty_succeeds [of "sample_oracle_data [] []"]
    GetIdent_empty_fails_nonempty_succeeds [of "sample_oracle_data [1, 5] []"]
  by (simp add: sample_oracle_data_def SetBytes_def)

text \<open>
  Claim C2, as stated, says that \<open>GetPreimageWithoutSize\<close> returns without failing on
  every \<open>OracleData\<close>, also on one shorter than 8 bytes. On three bytes of data the slice
  expression \<open>OracleData[8:]\<close> panics.
\<close>

theorem GetPreimageWithoutSize_short_counterexample:
  "GetPreimageWithoutSize (sample_oracle_data [1, 5] [1, 2, 3]) = Inl SliceBoundsOutOfRange"
  by (simp add: GetPreimageWithoutSize_def slice_from_def sample_oracle_data_def)

text \<open>
  Claim C2, amended. For every \<open>PreimageOracleData\<close> whose \<open>OracleData\<close> has at least 8
  bytes, \<open>GetPreimageWithoutSize\<close> returns the suffix of \<open>OracleData\<close> after the first 8
  bytes; on an \<open>OracleData\<close> shorter than 8 bytes it panics.
\<close>

theorem GetPreimageWithoutSize_guarded:
  "(8 \<le> length (OracleData p) \<longrightarrow> GetPreimageWithoutSize p = Inr (drop 8 (OracleData p))) \<and>
   (length (OracleData p) < 8 \<longrightarrow> GetPreimageWithoutSize p = Inl SliceBoundsOutOfRange)"
  by (simp add: GetPreimageWithoutSize_def slice_from_def)

theorem GetPreimageWithoutSize_guarded_witness:
  "GetPreimageWithoutSize (sample_oracle_data [1, 5] [0, 0, 0, 0, 0, 0, 0, 2, 10, 11])
     = Inr [10, 11] \<and>
   GetPreimageWithoutSize (sample_oracle_data [1, 5] [0, 0, 0, 0, 0, 0, 0])
     = Inl SliceBoundsOutOfRange"
  using GetPreimageWithoutSize_guarded
      [of "sample_oracle_data [1, 5] [0, 0, 0, 0, 0, 0, 0, 2, 10, 11]"]
    GetPreimageWithoutSize_guarded [of "sample_oracle_data [1, 5] [0, 0, 0, 0, 0, 0, 0]"]
  by (simp add: sample_oracle_data_def)

subsection \<open>The local context preimage\<close>

text \<open>
  Claim C3, as stated, speaks of every \<open>LocalContextPreimage\<close>. At a post claim of depth
  256 the generalized index is \<open>2^256\<close>, which needs 33 bytes: \<open>FillBytes\<close> panics on the
  32-byte buffer and \<open>Preimage\<close> returns no bytes at all.
\<close>

theorem Preimage_overflow_counterexample:
  "Preimage \<lparr>Pre = zero_Claim, Post = sample_claim 256 0\<rparr> = Inl FillBytesOverflow"
  by (simp add: Preimage_def UsePrestateBlock_def encodeClaim_overflow sample_claim_def
      ToGIndex_def)

text \<open>
  Claim C3, amended. For every \<open>LocalContextPreimage\<close> whose encoded claims have a
  generalized index below \<open>2^256\<close> (\<open>Post\<close> always, \<open>Pre\<close> when \<open>UsePrestateBlock\<close> is
  false), \<open>Preimage\<close> returns encode(Pre) followed by encode(Post) when
  \<open>UsePrestateBlock\<close> is false, and encode(Post) alone when it is true, where encode(c)
  is the 32-byte big-endian claim value followed by the 32-byte big-endian generalized
  index of the position of c; the result has exactly 128 bytes in the first case and
  exactly 64 bytes in the second.
\<close>

theorem Preimage_encoding:
  assumes "ToGIndex (Position (Post l)) < 2 ^ 256"
    and "\<not> UsePrestateBlock l \<longrightarrow> ToGIndex (Position (Pre l)) < 2 ^ 256"
  shows "(UsePrestateBlock l \<longrightarrow>
            Preimage l = Inr (spec_encode (Post l)) \<and> length (spec_encode (Post l)) = 64) \<and>
         (\<not> UsePrestateBlock l \<longrightarrow>
            Preimage l = Inr (spec_encode (Pre l) @ spec_encode (Post l)) \<and>
            length (spec_encode (Pre l) @ spec_encode (Post l)) = 128)"
  using assms by (simp add: Preimage_def encodeClaim_fits length_spec_encode)

theorem Preimage_encoding_witness:
  "Preimage \<lparr>Pre = zero_Claim, Post = sample_claim 1 0\<rparr>
     = Inr (spec_encode (sample_claim 1 0)) \<and>
   length (spec_encode (sample_claim 1 0)) = 64 \<and>
   Preimage \<lparr>Pre = sample_claim 0 0, Post = sample_claim 1 1\<rparr>
     = Inr (spec_encode (sample_claim 0 0) @ spec_encode (sample_claim 1 1)) \<and>
   length (spec_encode (sample_claim 0 0) @ spec_encode (sample_claim 1 1)) = 128"
  using Preimage_encoding [of "\<lparr>Pre = zero_Claim, Post = sample_claim 1 0\<rparr>"]
    Preimage_encoding [of "\<lparr>Pre = sample_claim 0 0, Post = sample_claim 1 1\<rparr>"]
  by (simp add: UsePrestateBlock_def sample_claim_def zero_Claim_def ToGIndex_def)

text \<open>
  Claim C4. For every \<open>LocalContextPreimage\<close> l, \<open>UsePrestateBlock\<close> returns true if and
  only if \<open>Pre\<close> of l equals the zero-valued \<open>Claim\<close>, that is, every field of \<open>Pre\<close> has
  its zero value.
\<close>

theorem UsePrestateBlock_iff_zero_claim:
  "(UsePrestateBlock l \<longleftrightarrow> Pre l = zero_Claim) \<and>
   (UsePrestateBlock l \<longleftrightarrow>
      Value (Pre l) = 0 \<and> depth (Position (Pre l)) = 0 \<and>
      indexAtDepth (Position (Pre l)) = 0 \<and> \<not> Countered (Pre l) \<and> Clock (Pre l) = 0 \<and>
      ContractIndex (Pre l) = 0 \<and> ParentContractIndex (Pre l) = 0)"
proof -
  obtain v p cn ck ci pi where c: "Pre l = \<lparr>Value = v, Position = p, Countered = cn,
      Clock = ck, ContractIndex = ci, ParentContractIndex = pi\<rparr>"
    by (cases "Pre l") auto
  obtain d i where p: "p = \<lparr>depth = d, indexAtDepth = i\<rparr>"
    by (cases p) auto
  show ?thesis
    by (simp add: UsePrestateBlock_def zero_Claim_def c p)
qed

text \<open>
  Claim C5. For every \<open>LocalContextPreimage\<close> l, \<open>Hash\<close> is keccak256 applied to the
  bytes of \<open>Preimage\<close> (and fails as \<open>Preimage\<close> does when that panics); \<open>Hash\<close> is
  deterministic: on equal values it returns the same result.
\<close>

theorem Hash_is_keccak_of_Preimage:
  "(\<forall>bs. Preimage l = Inr bs \<longrightarrow> Hash keccak256 l = Inr (keccak256 bs)) \<and>
   (\<forall>e. Preimage l = Inl e \<longrightarrow> Hash keccak256 l = Inl e) \<and>
   (l = l' \<longrightarrow> Hash keccak256 l = Hash keccak256 l')"
  by (simp add: Hash_def)

theorem Hash_is_keccak_of_Preimage_witness:
  "Preimage \<lparr>Pre = zero_Claim, Post = sample_claim 1 0\<rparr>
     = Inr (spec_encode (sample_claim 1 0)) \<and>
   Hash sample_keccak \<lparr>Pre = zero_Claim, Post = sample_claim 1 0\<rparr>
     = Inr (sample_keccak (spec_encode (sample_claim 1 0))) \<and>
   Preimage \<lparr>Pre = zero_Claim, Post = sample_claim 256 0\<rparr> = Inl FillBytesOverflow \<and>
   Hash sample_keccak \<lparr>Pre = zero_Claim, Post = sample_claim 256 0\<rparr> = Inl FillBytesOverflow"
proof -
  have a: "Preimage \<lparr>Pre = zero_Claim, Post = sample_claim 1 0\<rparr>
             = Inr (spec_encode (sample_claim 1 0))"
    by (simp add: Preimage_def UsePrestateBlock_def encodeClaim_fits sample_claim_def
        ToGIndex_def)
  have b: "Preimage \<lparr>Pre = zero_Claim, Post = sample_claim 256 0\<rparr> = Inl FillBytesOverflow"
    by (simp add: Preimage_def UsePrestateBlock_def encodeClaim_overflow sample_claim_def
        ToGIndex_def)
  from a b
    Hash_is_keccak_of_Preimage [of "\<lparr>Pre = zero_Claim, Post = sample_claim 1 0\<rparr>"
      sample_keccak "\<lparr>Pre = zero_Claim, Post = sample_claim 1 0\<rparr>"]
    Hash_is_keccak_of_Preimage [of "\<lparr>Pre = zero_Claim, Post = sample_claim 256 0\<rparr>"
      sample_keccak "\<lparr>Pre = zero_Claim, Post = sample_claim 256 0\<rparr>"]
  show ?thesis by simp
qed

subsection \<open>Construction of preimage oracle data\<close>

text \<open>
  Claim C6. For every non-empty key, \<open>NewPreimageOracleData\<close> returns a value with
  \<open>IsLocal = true\<close> if \<open>key[0] = 1\<close> and \<open>IsLocal = false\<close> if \<open>key[0] = 0\<close>; the constructed
  value satisfies the invariant that \<open>IsLocal\<close> holds iff \<open>OracleKey[0] = 1\<close>.
\<close>

theorem NewPreimageOracleData_IsLocal:
  assumes "key \<noteq> []"
  shows "(key ! 0 = 1 \<longrightarrow> IsLocal (NewPreimageOracleData lctx key data offset)) \<and>
         (key ! 0 = 0 \<longrightarrow> \<not> IsLocal (NewPreimageOracleData lctx key data offset)) \<and>
         (IsLocal (NewPreimageOracleData lctx key data offset) \<longleftrightarrow>
            OracleKey (NewPreimageOracleData lctx key data offset) ! 0 = 1)"
  using assms by (simp add: NewPreimageOracleData_def)

theorem NewPreimageOracleData_IsLocal_witness:
  "IsLocal (NewPreimageOracleData 0 [1, 5] [] 0) \<and>
   \<not> IsLocal (NewPreimageOracleData 0 [0, 5] [] 0)"
  using NewPreimageOracleData_IsLocal [of "[1, 5]" 0 "[]" 0]
    NewPreimageOracleData_IsLocal [of "[0, 5]" 0 "[]" 0]
  by simp

text \<open>
  Claim C10. \<open>NewPreimageOracleData\<close> called with an empty key does not fail: the result
  has \<open>IsLocal = false\<close>, and the key, the data, the local context and the offset are
  stored exactly as passed.
\<close>

theorem NewPreimageOracleData_empty_key:
  "NewPreimageOracleData lctx [] data offset =
     \<lparr>IsLocal = False, LocalContext = lctx, OracleKey = [], OracleData = data,
      OracleOffset = offset\<rparr>"
  by (simp add: NewPreimageOracleData_def)

subsection \<open>Positions and moves\<close>

text \<open>
  Claim C7. For every valid position p that is not a leaf (its depth is below the
  maximum depth), the parent of the left child of p is p, and the parent of the right
  child of p is p.
\<close>

theorem parent_of_children:
  assumes "valid_position p" and "depth p < maxDepth"
  shows "parent (leftChild p) = p \<and> parent (rightChild p) = p"
  by (simp add: parent_def leftChild_def rightChild_def)

theorem parent_of_children_witness:
  "valid_position \<lparr>depth = 2, indexAtDepth = 3\<rparr> \<and>
   parent (leftChild \<lparr>depth = 2, indexAtDepth = 3\<rparr>) = \<lparr>depth = 2, indexAtDepth = 3\<rparr> \<and>
   parent (rightChild \<lparr>depth = 2, indexAtDepth = 3\<rparr>) = \<lparr>depth = 2, indexAtDepth = 3\<rparr>"
proof -
  have v: "valid_position \<lparr>depth = 2, indexAtDepth = 3\<rparr>"
    by (simp add: valid_position_def)
  have d: "depth \<lparr>depth = 2, indexAtDepth = 3\<rparr> < (4 :: nat)"
    by simp
  from v parent_of_children [OF v d] show ?thesis by simp
qed

text \<open>
  Claim C8. For every position at the maximum depth of the game, an attempt at a
  further bisection move, attack or defence, fails with \<open>ErrGameDepthReached\<close> and
  produces no position.
\<close>

theorem move_at_max_depth_fails:
  assumes "depth p = maxDepth"
  shows "attack maxDepth p = Inl ErrGameDepthReached \<and>
         defend maxDepth p = Inl ErrGameDepthReached"
  using assms by (simp add: attack_def defend_def)

theorem move_at_max_depth_fails_witness:
  "attack 4 \<lparr>depth = 4, indexAtDepth = 9\<rparr> = Inl ErrGameDepthReached \<and>
   defend 4 \<lparr>depth = 4, indexAtDepth = 9\<rparr> = Inl ErrGameDepthReached"
  using move_at_max_depth_fails [of "\<lparr>depth = 4, indexAtDepth = 9\<rparr>" 4] by simp

text \<open>
  Claim C9. For every \<open>Claim\<close> c, \<open>IsRoot\<close> returns true if and only if the position of c
  is the root position, depth = 0 and indexAtDepth = 0: \<open>IsRoot\<close> agrees with
  \<open>IsRootPosition\<close>.
\<close>

theorem IsRoot_iff_root_position:
  "(IsRoot c \<longleftrightarrow> depth (Position c) = 0 \<and> indexAtDepth (Position c) = 0) \<and>
   IsRoot c = IsRootPosition (Position c)"
  by (simp add: IsRoot_def IsRootPosition_def)

end
